theory Spec2Isabelle
  imports Main "HOL-Library.Sublist"
begin

section \<open>Strings of the source language\<close>

text \<open>
  A TypeScript string is a sequence of code units. The model is \<open>string\<close> (a list of
  \<open>char\<close>), each \<open>char\<close> standing for the code unit of the same number, so the model
  covers the strings whose code units lie in U+0000..U+00FF. \<open>length\<close> is \<open>.length\<close>.
\<close>

definition isWhiteSpace :: "char \<Rightarrow> bool" where
  \<comment> \<open>the characters the regular expression class \<open>\s\<close> and \<open>trim()\<close> treat as white
      space, in the modelled range: TAB, LF, VT, FF, CR, SPACE and NO-BREAK SPACE\<close>
  "isWhiteSpace c = (of_char c \<in> {9, 10, 11, 12, 13, 32, 160 :: nat})"

definition toLowerCase_char :: "char \<Rightarrow> char" where
  \<comment> \<open>A..Z and the upper-case letters of U+00C0..U+00DE (all but the multiplication
      sign U+00D7) move up by 32; every other code unit is left alone\<close>
  "toLowerCase_char c =
     (let n = (of_char c :: nat)
      in if 65 \<le> n \<and> n \<le> 90 then char_of (n + 32)
         else if 192 \<le> n \<and> n \<le> 222 \<and> n \<noteq> 215 then char_of (n + 32)
         else c)"

definition toLowerCase :: "string \<Rightarrow> string" where
  "toLowerCase s = map toLowerCase_char s"

text \<open>
  \<open>s.split(/\s+/)\<close>: the pieces of \<open>s\<close> between the maximal runs of white space. A run
  at the start or at the end of \<open>s\<close> leaves an empty piece there, and the empty string
  splits into one empty piece. \<open>acc\<close> holds the current piece, reversed.
\<close>

function split_ws_from :: "string \<Rightarrow> string \<Rightarrow> string list" where
  "split_ws_from acc [] = [rev acc]"
| "split_ws_from acc (c # cs) =
     (if isWhiteSpace c then rev acc # split_ws_from [] (dropWhile isWhiteSpace cs)
      else split_ws_from (c # acc) cs)"
  by pat_completeness auto
termination
  by (relation "measure (\<lambda>(acc, s). length s)")
     (auto simp: length_dropWhile_le less_Suc_eq_le)

definition split_ws :: "string \<Rightarrow> string list" where
  "split_ws s = split_ws_from [] s"

fun includes_str :: "string \<Rightarrow> string \<Rightarrow> bool" where
  \<comment> \<open>\<open>s.includes(t)\<close>: \<open>t\<close> occurs in \<open>s\<close> as a contiguous substring\<close>
  "includes_str [] t = (t = [])"
| "includes_str (c # cs) t = (prefix t (c # cs) \<or> includes_str cs t)"

definition trim :: "string \<Rightarrow> string" where
  "trim s = rev (dropWhile isWhiteSpace (rev (dropWhile isWhiteSpace s)))"

definition substring :: "string \<Rightarrow> nat \<Rightarrow> nat \<Rightarrow> string" where
  \<comment> \<open>\<open>s.substring(a, b)\<close>: the arguments are swapped when \<open>a > b\<close> and clamped to the length\<close>
  "substring s a b = (let lo = min a b; hi = max a b in take (hi - lo) (drop lo s))"

fun join :: "string \<Rightarrow> string list \<Rightarrow> string" where
  "join sep [] = []"
| "join sep [x] = x"
| "join sep (x # y # ys) = x @ sep @ join sep (y # ys)"

definition digit_char :: "nat \<Rightarrow> char" where
  "digit_char d = char_of (48 + d)"

fun toString :: "nat \<Rightarrow> string" where
  \<comment> \<open>the decimal rendering of a non-negative integer, as a template literal produces it\<close>
  "toString n = (if n < 10 then [digit_char n] else toString (n div 10) @ [digit_char (n mod 10)])"

declare toString.simps [simp del]

section \<open>Keyword extraction\<close>

definition stopWords :: "string list" where
  "stopWords = [''the'', ''is'', ''at'', ''which'', ''on'', ''how'', ''to'', ''what'', ''where'',
                ''when'', ''why'', ''and'', ''or'', ''but'', ''in'', ''with'', ''for'']"

definition extractKeywords :: "string \<Rightarrow> string list" where
  "extractKeywords query =
     take 5 (filter (\<lambda>word. length word > 2 \<and> word \<notin> set stopWords)
               (split_ws (toLowerCase query)))"

section \<open>Data model\<close>

text \<open>
  The interfaces \<open>Article\<close> and \<open>ChatMessage\<close>. Both have fields \<open>id\<close> and \<open>content\<close> in
  the source; the records name them \<open>article_id\<close>, \<open>content\<close> and \<open>message_id\<close>,
  \<open>message_content\<close>, and the field \<open>keywords\<close> is \<open>article_keywords\<close>. The two time
  stamps of an article are the instants the column \<open>timestamptz\<close> stores (microseconds);
  the client sees their ISO rendering, and the store orders by the instant. The time stamp
  of a message is a clock reading in milliseconds, and so is the number its \<open>id\<close> renders.
\<close>

type_synonym timestamptz = int

record Article =
  article_id :: string
  title :: string
  content :: string
  article_keywords :: "string list"
  category :: string
  author :: string
  created_at :: timestamptz
  updated_at :: timestamptz

record ChatMessage =
  message_id :: string
  message_content :: string
  isBot :: bool
  timestamp :: nat
  articles :: "Article list option"

section \<open>The article store seen through the query builder\<close>

text \<open>
  The database client is a library outside the repository. A query is the value the
  builder chain \<open>from(..).select(..).<filter>(..).order(..).limit(..)\<close> describes. Awaiting
  it either throws (\<open>Inl\<close>) or yields a response \<open>{ data, error }\<close>, whose \<open>data\<close> is
  \<open>null\<close> when the store reports an error.
\<close>

datatype filter_op = overlaps string "string list" | textSearch string string

record query =
  from_table :: string
  select_columns :: string
  filter_by :: filter_op
  order_by :: string
  ascending :: bool
  limit_to :: nat

record response =
  data :: "Article list option"
  error :: "string option"

type_synonym exn = string

type_synonym store = "query \<Rightarrow> exn + response"

section \<open>Retrieval\<close>

definition keywordQuery :: "string list \<Rightarrow> query" where
  "keywordQuery kws =
     \<lparr>from_table = ''articles'', select_columns = ''*'',
      filter_by = overlaps ''keywords'' kws,
      order_by = ''created_at'', ascending = False, limit_to = 5\<rparr>"

definition textQuery :: "string \<Rightarrow> query" where
  "textQuery q =
     \<lparr>from_table = ''articles'', select_columns = ''*'',
      filter_by = textSearch ''title'' q,
      order_by = ''created_at'', ascending = False, limit_to = 5\<rparr>"

definition no_rows :: "Article list option \<Rightarrow> bool" where
  \<comment> \<open>\<open>!rows || rows.length === 0\<close>\<close>
  "no_rows d = (case d of None \<Rightarrow> True | Some rows \<Rightarrow> length rows = 0)"

definition or_empty :: "Article list option \<Rightarrow> Article list" where
  \<comment> \<open>\<open>rows || []\<close>\<close>
  "or_empty d = (case d of None \<Rightarrow> [] | Some rows \<Rightarrow> rows)"

text \<open>
  \<open>searchArticles\<close> returns the queries it issued, in order, beside its result; a thrown
  value of an awaited query is the thrown value of the function.
\<close>

definition searchArticles :: "store \<Rightarrow> string \<Rightarrow> query list \<times> (exn + Article list)" where
  "searchArticles st q =
     (let kws = extractKeywords q; q1 = keywordQuery kws
      in case st q1 of
           Inl e \<Rightarrow> ([q1], Inl e)
         | Inr r1 \<Rightarrow>
             (let keywordResults = data r1
              in if no_rows keywordResults
                 then (let q2 = textQuery q
                       in case st q2 of
                            Inl e \<Rightarrow> ([q1, q2], Inl e)
                          | Inr r2 \<Rightarrow>
                              (let keywordResults = Some (or_empty (data r2))
                               in ([q1, q2], Inr (or_empty keywordResults))))
                 else ([q1], Inr (or_empty keywordResults))))"

section \<open>Summary generation\<close>

definition Set_of :: "'a list \<Rightarrow> 'a list" where
  \<comment> \<open>\<open>[...new Set(xs)]\<close>: the distinct elements in the order of their first insertion\<close>
  "Set_of xs = fold (\<lambda>x s. if x \<in> set s then s else s @ [x]) xs []"

definition generateContextualSummary :: "Article list \<Rightarrow> string \<Rightarrow> string" where
  "generateContextualSummary arts q =
     (let categories = Set_of (map category arts);
          mainCategory = (case categories of [] \<Rightarrow> ''undefined'' | c # _ \<Rightarrow> c)
      in if includes_str (toLowerCase q) ''how'' then
           ''Here are the step-by-step instructions from our '' @ mainCategory @
           '' documentation. Follow the procedures outlined in these articles for best results.''
         else if includes_str (toLowerCase q) ''what'' then
           ''These articles explain the concepts and definitions related to '' @ mainCategory @
           ''. Review the documentation for comprehensive understanding.''
         else if includes_str (toLowerCase q) ''error'' \<or> includes_str (toLowerCase q) ''issue'' then
           ''These articles contain troubleshooting information and solutions for common issues in ''
           @ mainCategory @ ''. Check the error handling sections.''
         else
           ''The documentation covers various aspects of '' @ mainCategory @
           ''. These articles should provide the information you're looking for.'')"

definition article_block :: "Article \<Rightarrow> string" where
  \<comment> \<open>the template of the \<open>map\<close> callback in \<open>generateSummary\<close>\<close>
  "article_block a =
     ''**'' @ title a @ ''** ('' @ category a @ ''): '' @ substring (content a) 0 200 @ ''...''"

definition blank_line :: string where
  "blank_line = [CHR 0x0A, CHR 0x0A]"

definition no_results_message :: string where
  "no_results_message =
     ''I couldn't find any relevant articles for your query. Try using different keywords or check with an admin to ensure the documentation is available.''"

definition generateSummary :: "Article list \<Rightarrow> string \<Rightarrow> string" where
  "generateSummary arts q =
     (if length arts = 0 then no_results_message
      else
        (let relevantContent = join blank_line (map article_block (take 3 arts))
         in ''Based on your query about '' @ [CHR 0x22] @ q @ [CHR 0x22] @ '', I found '' @
            toString (length arts) @ '' relevant article'' @
            (if length arts > 1 then ''s'' else []) @ '':'' @ blank_line @
            relevantContent @ blank_line @ ''**Summary**: '' @
            generateContextualSummary arts q))"

section \<open>The chat session\<close>

record ChatState =
  messages :: "ChatMessage list"
  inputValue :: string
  isLoading :: bool

definition error_message :: string where
  "error_message =
     ''I'm sorry, I encountered an error while searching for information. Please try again or contact an administrator.''"

text \<open>
  \<open>handleSendMessage\<close> is a closure of one render of the component: it reads \<open>inputValue\<close>
  and \<open>isLoading\<close> as that render saw them (\<open>seen\<close>), and its setters act on the
  current state of the component (\<open>s\<close>), which the closure does not see change. It runs
  in two parts, around its one \<open>await\<close>. The first part runs when the user submits: it
  returns the state it leaves and the query it dispatches, or \<open>None\<close> when it returned at
  its guard. \<open>now\<close> is what \<open>Date.now()\<close> reads for the id of the message and \<open>stamp\<close>
  what \<open>new Date()\<close> reads for its time stamp.
\<close>

definition handleSendMessage_submit ::
    "nat \<Rightarrow> nat \<Rightarrow> ChatState \<Rightarrow> ChatState \<Rightarrow> ChatState \<times> string option" where
  "handleSendMessage_submit now stamp seen s =
     (if trim (inputValue seen) = [] \<or> isLoading seen then (s, None)
      else
        (let userMessage = \<lparr>message_id = toString now, message_content = inputValue seen,
                             isBot = False, timestamp = stamp, articles = None\<rparr>
         in (s\<lparr>messages := messages s @ [userMessage], inputValue := [], isLoading := True\<rparr>,
             Some (inputValue seen))))"

text \<open>
  The second part runs when the awaited \<open>searchArticles\<close> settles with \<open>outcome\<close>: the rest
  of the \<open>try\<close> block, the \<open>catch\<close> block, then the \<open>finally\<close> block. \<open>q\<close> is the input
  value of the closure; \<open>now\<close> and \<open>stamp\<close> are the two clock readings of this part.
\<close>

definition handleSendMessage_settle ::
    "nat \<Rightarrow> nat \<Rightarrow> string \<Rightarrow> exn + Article list \<Rightarrow> ChatState \<Rightarrow> ChatState" where
  "handleSendMessage_settle now stamp q outcome s =
     (let s' = (case outcome of
                  Inr arts \<Rightarrow>
                    (let response = generateSummary arts q;
                         botMessage = \<lparr>message_id = toString (now + 1), message_content = response,
                                       isBot = True, timestamp = stamp,
                                       articles = Some (take 3 arts)\<rparr>
                     in s\<lparr>messages := messages s @ [botMessage]\<rparr>)
                | Inl e \<Rightarrow>
                    (let errorMessage = \<lparr>message_id = toString (now + 1),
                                          message_content = error_message,
                                          isBot = True, timestamp = stamp, articles = None\<rparr>
                     in s\<lparr>messages := messages s @ [errorMessage]\<rparr>))
      in s'\<lparr>isLoading := False\<rparr>)"

text \<open>The whole call against a store, when nothing else happens in between.\<close>

definition handleSendMessage ::
    "store \<Rightarrow> nat \<Rightarrow> nat \<Rightarrow> nat \<Rightarrow> nat \<Rightarrow> ChatState \<Rightarrow> ChatState \<Rightarrow> ChatState" where
  "handleSendMessage st now stamp now' stamp' seen s =
     (case handleSendMessage_submit now stamp seen s of
        (s1, None) \<Rightarrow> s1
      | (s1, Some q) \<Rightarrow> handleSendMessage_settle now' stamp' q (snd (searchArticles st q)) s1)"

section \<open>Reference notions the properties are stated with\<close>

text \<open>
  The words of a string as the specification describes them: the maximal runs of
  characters that are not white space, in order.
\<close>

function words_of :: "string \<Rightarrow> string list" where
  "words_of s =
     (case dropWhile isWhiteSpace s of
        [] \<Rightarrow> []
      | c # cs \<Rightarrow> takeWhile (\<lambda>x. \<not> isWhiteSpace x) (c # cs)
                 # words_of (dropWhile (\<lambda>x. \<not> isWhiteSpace x) cs))"
  by pat_completeness auto
termination
proof (relation "measure length", goal_cases)
  case 1
  show ?case by simp
next
  case (2 s c cs)
  have "length (dropWhile (\<lambda>x. \<not> isWhiteSpace x) cs) \<le> length cs"
    by (rule length_dropWhile_le)
  moreover have "length (c # cs) \<le> length s"
    using length_dropWhile_le [of isWhiteSpace s] 2 by simp
  ultimately show ?case by simp
qed

declare words_of.simps [simp del]

text \<open>
  What the retriever asks of the store with \<open>order(.., { ascending: false })\<close> and
  \<open>limit(..)\<close>: a store honours a query when the rows it answers with are no more than
  the limit and, for the order by \<open>created_at\<close> descending, most recent first.
\<close>

definition created_desc :: "Article list \<Rightarrow> bool" where
  "created_desc rows = sorted_wrt (\<lambda>a b. created_at b \<le> created_at a) rows"

definition honours_order_and_limit :: "store \<Rightarrow> bool" where
  "honours_order_and_limit st =
     (\<forall>q r rows. st q = Inr r \<and> data r = Some rows \<longrightarrow>
        length rows \<le> limit_to q \<and>
        (order_by q = ''created_at'' \<and> \<not> ascending q \<longrightarrow> created_desc rows))"

text \<open>
  A store that answers from a table of articles: it keeps the rows the filter accepts,
  orders them and cuts them at the limit. \<open>fts\<close> decides whether a title matches a
  full-text query.
\<close>

definition satisfies :: "(string \<Rightarrow> string \<Rightarrow> bool) \<Rightarrow> filter_op \<Rightarrow> Article \<Rightarrow> bool" where
  "satisfies fts f a =
     (case f of
        overlaps col kws \<Rightarrow> col = ''keywords'' \<and> list_ex (\<lambda>k. k \<in> set (article_keywords a)) kws
      | textSearch col q \<Rightarrow> col = ''title'' \<and> fts (title a) q)"

definition table_store :: "Article list \<Rightarrow> (string \<Rightarrow> string \<Rightarrow> bool) \<Rightarrow> store" where
  "table_store tbl fts q =
     (let hits = filter (satisfies fts (filter_by q)) tbl;
          ordered = (if order_by q = ''created_at''
                     then (if ascending q then sort_key created_at hits
                           else sort_key (\<lambda>a. - created_at a) hits)
                     else hits)
      in Inr \<lparr>data = Some (take (limit_to q) ordered), error = None\<rparr>)"

text \<open>
  The session as a transition system. The component starts with one greeting turn (its
  text is a parameter here: it holds a character outside the modelled range). \<open>state\<close> is
  the current state of the component and \<open>view\<close> the state its last render saw, which is
  what the handlers of that render read. An event is the user editing the input, the
  component rendering again, the user sending, or the oldest outstanding cycle settling.
  \<open>pending\<close> lists the queries of the cycles dispatched and not settled yet.
\<close>

definition initialState :: "string \<Rightarrow> nat \<Rightarrow> ChatState" where
  "initialState greeting t =
     \<lparr>messages = [\<lparr>message_id = ''1'', message_content = greeting, isBot = True,
                    timestamp = t, articles = None\<rparr>],
      inputValue = [], isLoading = False\<rparr>"

record Session =
  state :: ChatState
  view :: ChatState
  pending :: "string list"


datatype event =
    EditInput string
  | Render
  | Send nat nat
  | Settle nat nat "exn + Article list"

fun step :: "event \<Rightarrow> Session \<Rightarrow> Session" where
  "step (EditInput v) \<sigma> = \<sigma>\<lparr>state := (state \<sigma>)\<lparr>inputValue := v\<rparr>\<rparr>"
| "step Render \<sigma> = \<sigma>\<lparr>view := state \<sigma>\<rparr>"
| "step (Send now stamp) \<sigma> =
     (case handleSendMessage_submit now stamp (view \<sigma>) (state \<sigma>) of
        (s', None) \<Rightarrow> \<sigma>\<lparr>state := s'\<rparr>
      | (s', Some q) \<Rightarrow> \<sigma>\<lparr>state := s', pending := pending \<sigma> @ [q]\<rparr>)"
| "step (Settle now stamp outcome) \<sigma> =
     (case pending \<sigma> of
        [] \<Rightarrow> \<sigma>
      | q # rest \<Rightarrow>
          \<sigma>\<lparr>state := handleSendMessage_settle now stamp q outcome (state \<sigma>), pending := rest\<rparr>)"




text \<open>
  Decimal numerals, to say what the count in the summary is: \<open>decimal_of n k\<close> holds when
  \<open>n\<close> is the decimal numeral of \<open>k\<close>, digits only and with no leading zero.
\<close>

definition is_digit :: "char \<Rightarrow> bool" where
  "is_digit c = (48 \<le> (of_char c :: nat) \<and> (of_char c :: nat) \<le> 57)"

definition digits_value :: "string \<Rightarrow> nat" where
  "digits_value n = foldl (\<lambda>v c. 10 * v + (of_char c - 48)) 0 n"

definition decimal_of :: "string \<Rightarrow> nat \<Rightarrow> bool" where
  "decimal_of n k =
     (n \<noteq> [] \<and> list_all is_digit n \<and> (n = ''0'' \<or> 49 \<le> (of_char (hd n) :: nat)) \<and>
      digits_value n = k)"

section \<open>Sample data\<close>

text \<open>Two articles and a table to evaluate the definitions on.\<close>

definition docker_guide :: Article where
  "docker_guide =
     \<lparr>article_id = ''a1'', title = ''Docker Deployment Guide'',
      content = ''Use docker compose.'',
      article_keywords = [''docker'', ''deployment''], category = ''DevOps'',
      author = ''Admin'', created_at = 200, updated_at = 200\<rparr>"

definition api_errors :: Article where
  "api_errors =
     \<lparr>article_id = ''a2'', title = ''API Errors'', content = ''Check the status code.'',
      article_keywords = [''api'', ''errors''], category = ''Backend'',
      author = ''Admin'', created_at = 100, updated_at = 100\<rparr>"

definition six_guides :: "Article list" where
  \<comment> \<open>six copies of the guide, created at the instants 3, 1, 6, 2, 5, 4\<close>
  "six_guides = map (\<lambda>n. docker_guide\<lparr>created_at := n\<rparr>) [3, 1, 6, 2, 5, 4]"

definition title_contains :: "string \<Rightarrow> string \<Rightarrow> bool" where
  \<comment> \<open>a stand-in for the full-text match of a title: the query occurs in it\<close>
  "title_contains t q = includes_str t q"

definition erroring_store :: store where
  \<comment> \<open>a store that answers every query with an error response: \<open>data\<close> is \<open>null\<close>\<close>
  "erroring_store q = Inr \<lparr>data = None, error = Some ''connection refused''\<rparr>"

definition typed :: "string \<Rightarrow> ChatState" where
  \<comment> \<open>the session at its start, with \<open>v\<close> in the input field\<close>
  "typed v = (initialState ''Hello!'' 0)\<lparr>inputValue := v\<rparr>"

section \<open>Keyword extraction: properties\<close>

lemma words_of_Nil: "words_of [] = []"
  by (simp add: words_of.simps)

lemma words_of_white: "isWhiteSpace c \<Longrightarrow> words_of (c # s) = words_of s"
  by (subst words_of.simps, subst (2) words_of.simps) simp

lemma words_of_dropWhile: "words_of (dropWhile isWhiteSpace s) = words_of s"
  by (induction s) (simp_all add: words_of_white)

lemma words_of_word:
  assumes "w \<noteq> []" and "list_all (\<lambda>x. \<not> isWhiteSpace x) w"
  shows "words_of w = [w]"
    and "isWhiteSpace c \<Longrightarrow> words_of (w @ c # s) = w # words_of s"
proof -
  obtain a u where w: "w = a # u" using assms(1) by (cases w) auto
  have a: "\<not> isWhiteSpace a" and u: "list_all (\<lambda>x. \<not> isWhiteSpace x) u"
    using assms(2) w by simp_all
  have tw: "takeWhile (\<lambda>x. \<not> isWhiteSpace x) u = u"
    using u by (simp add: list_all_iff)
  have dw: "dropWhile (\<lambda>x. \<not> isWhiteSpace x) u = []"
    using u by (simp add: list_all_iff)
  show "words_of w = [w]"
    by (subst words_of.simps) (simp add: w a tw dw words_of_Nil)
  assume c: "isWhiteSpace c"
  have tw': "takeWhile (\<lambda>x. \<not> isWhiteSpace x) (u @ c # s) = u"
    using u c by (simp add: list_all_iff takeWhile_append)
  have dw': "dropWhile (\<lambda>x. \<not> isWhiteSpace x) (u @ c # s) = c # s"
    using u c by (simp add: list_all_iff dropWhile_append)
  show "words_of (w @ c # s) = w # words_of s"
    by (subst words_of.simps) (simp add: w a tw' dw' words_of_white c)
qed

text \<open>
  The pieces \<open>split\<close> returns are the words of the string, with an empty piece wherever
  white space starts or ends the string.
\<close>

lemma split_ws_from_words:
  "list_all (\<lambda>x. \<not> isWhiteSpace x) acc \<Longrightarrow>
   filter (\<lambda>t. t \<noteq> []) (split_ws_from acc s) = words_of (rev acc @ s)"
proof (induction acc s rule: split_ws_from.induct)
  case (1 acc)
  then show ?case
    by (cases "acc = []") (simp_all add: words_of_Nil words_of_word(1))
next
  case (2 acc c cs)
  show ?case
  proof (cases "isWhiteSpace c")
    case True
    have "filter (\<lambda>t. t \<noteq> []) (split_ws_from [] (dropWhile isWhiteSpace cs)) = words_of cs"
      using "2.IH"(1) [OF True] by (simp add: words_of_dropWhile)
    then show ?thesis
      using True "2.prems"
      by (cases "acc = []") (simp_all add: words_of_white words_of_word(2))
  next
    case False
    then show ?thesis
      using "2.IH"(2) "2.prems" by simp
  qed
qed

lemma split_ws_words: "filter (\<lambda>t. t \<noteq> []) (split_ws s) = words_of s"
  using split_ws_from_words [of "[]" s] by (simp add: split_ws_def)

lemma extractKeywords_words:
  "extractKeywords q =
     take 5 (filter (\<lambda>t. \<not> length t \<le> 2 \<and> t \<notin> set stopWords) (words_of (toLowerCase q)))"
proof -
  have "(t \<noteq> [] \<and> \<not> length t \<le> 2 \<and> t \<notin> set stopWords) = (length t > 2 \<and> t \<notin> set stopWords)"
    for t :: string
    by auto
  then show ?thesis
    unfolding extractKeywords_def split_ws_words [symmetric] filter_filter by simp
qed

text \<open>
  C3. Keyword extraction lower-cases the query, takes its words (the pieces between runs
  of white space), drops every word of length at most 2 and every word of the list of 17
  stop words, and returns the first five words left, in their order and with repetitions
  kept. Nothing is returned for the empty query, and never more than five words.
\<close>

theorem extractKeywords_spec:
  "extractKeywords q =
     take 5 (filter (\<lambda>t. \<not> length t \<le> 2 \<and> t \<notin> set stopWords) (words_of (toLowerCase q)))
   \<and> stopWords = [''the'', ''is'', ''at'', ''which'', ''on'', ''how'', ''to'', ''what'',
        ''where'', ''when'', ''why'', ''and'', ''or'', ''but'', ''in'', ''with'', ''for'']
   \<and> length stopWords = 17
   \<and> length (extractKeywords q) \<le> 5
   \<and> extractKeywords [] = []"
proof -
  have "extractKeywords [] = []"
    by (simp add: extractKeywords_words toLowerCase_def words_of_Nil)
  moreover have "length (extractKeywords q) \<le> 5"
    by (simp add: extractKeywords_def)
  moreover have "length stopWords = 17"
    by (simp add: stopWords_def)
  ultimately show ?thesis
    using extractKeywords_words [of q] by (simp add: stopWords_def)
qed

lemma words_deploy:
  "words_of (toLowerCase ''How do I deploy with Docker'') =
     [''how'', ''do'', ''i'', ''deploy'', ''with'', ''docker'']"
  by code_simp

theorem extractKeywords_spec_witness:
  "extractKeywords ''How do I deploy with Docker'' = [''deploy'', ''docker'']"
  using extractKeywords_spec [of "''How do I deploy with Docker''", THEN conjunct1]
  by (simp add: words_deploy stopWords_def)

section \<open>Summary generation: properties\<close>

text \<open>
  C7. For the empty list of articles the summary is the fixed message that tells the
  user to try other keywords or to check with an admin, whatever the query is.
\<close>

theorem generateSummary_no_results:
  "generateSummary [] q =
     ''I couldn't find any relevant articles for your query. Try using different keywords or check with an admin to ensure the documentation is available.''"
  by (simp add: generateSummary_def no_results_message_def)

theorem generateSummary_no_results_witness:
  "generateSummary [] ''docker'' = no_results_message"
  using generateSummary_no_results [of "''docker''"]
  by (simp add: no_results_message_def)

lemma includes_str_sublist: "includes_str s t = sublist t s"
  by (induction s) (simp_all add: sublist_Cons_right)

lemma fold_Set_keeps_head:
  "acc \<noteq> [] \<Longrightarrow> fold (\<lambda>x s. if x \<in> set s then s else s @ [x]) xs acc \<noteq> [] \<and>
     hd (fold (\<lambda>x s. if x \<in> set s then s else s @ [x]) xs acc) = hd acc"
  by (induction xs arbitrary: acc) simp_all

lemma Set_of_Cons: "\<exists>rest. Set_of (x # xs) = x # rest"
proof -
  let ?r = "fold (\<lambda>x s. if x \<in> set s then s else s @ [x]) xs [x]"
  have "?r \<noteq> [] \<and> hd ?r = x"
    using fold_Set_keeps_head [of "[x]" xs] by simp
  then show ?thesis
    by (cases ?r) (simp_all add: Set_of_def)
qed

lemma mainCategory_first:
  "arts \<noteq> [] \<Longrightarrow>
   (case Set_of (map category arts) of [] \<Rightarrow> ''undefined'' | c # _ \<Rightarrow> c) = category (hd (take 3 arts))"
proof -
  assume "arts \<noteq> []"
  then obtain a rest where arts: "arts = a # rest" by (cases arts) auto
  obtain r where "Set_of (map category arts) = category a # r"
    using Set_of_Cons [of "category a" "map category rest"] arts by auto
  then show ?thesis by (simp add: arts)
qed

text \<open>
  C4. For a non-empty list of articles the closing sentence is chosen by testing the
  lower-cased query for the substrings "how", then "what", then "error" or "issue", the
  first test that succeeds deciding; a query with both "how" and "error" gets the
  procedural sentence. The category the sentence names is that of the first of the top
  three articles.
\<close>

theorem contextual_summary_priority:
  assumes "arts \<noteq> []"
  shows "generateContextualSummary arts q =
     (if sublist ''how'' (toLowerCase q) then
        ''Here are the step-by-step instructions from our '' @ category (hd (take 3 arts)) @
        '' documentation. Follow the procedures outlined in these articles for best results.''
      else if sublist ''what'' (toLowerCase q) then
        ''These articles explain the concepts and definitions related to '' @
        category (hd (take 3 arts)) @
        ''. Review the documentation for comprehensive understanding.''
      else if sublist ''error'' (toLowerCase q) \<or> sublist ''issue'' (toLowerCase q) then
        ''These articles contain troubleshooting information and solutions for common issues in ''
        @ category (hd (take 3 arts)) @ ''. Check the error handling sections.''
      else
        ''The documentation covers various aspects of '' @ category (hd (take 3 arts)) @
        ''. These articles should provide the information you're looking for.'')
   \<and> (sublist ''how'' (toLowerCase q) \<and> sublist ''error'' (toLowerCase q) \<longrightarrow>
        generateContextualSummary arts q =
          ''Here are the step-by-step instructions from our '' @ category (hd (take 3 arts)) @
          '' documentation. Follow the procedures outlined in these articles for best results.'')"
  using mainCategory_first [OF assms]
  by (simp add: generateContextualSummary_def includes_str_sublist Let_def)

lemma lower_fix_error: "toLowerCase ''How do I fix this error'' = ''how do i fix this error''"
  by code_simp

theorem contextual_summary_priority_witness:
  "[docker_guide, api_errors] \<noteq> []
   \<and> sublist ''how'' (toLowerCase ''How do I fix this error'')
   \<and> sublist ''error'' (toLowerCase ''How do I fix this error'')
   \<and> generateContextualSummary [docker_guide, api_errors] ''How do I fix this error'' =
       ''Here are the step-by-step instructions from our DevOps documentation. Follow the procedures outlined in these articles for best results.''"
proof -
  have ne: "[docker_guide, api_errors] \<noteq> []" by simp
  have how: "sublist ''how'' (toLowerCase ''How do I fix this error'')"
    unfolding lower_fix_error includes_str_sublist [symmetric] by simp
  have err: "sublist ''error'' (toLowerCase ''How do I fix this error'')"
    unfolding lower_fix_error includes_str_sublist [symmetric] by simp
  show ?thesis
    using contextual_summary_priority [OF ne, of "''How do I fix this error''"] how err
    by (simp add: docker_guide_def)
qed

lemma sublist_join: "x \<in> set xs \<Longrightarrow> sublist x (join sep xs)"
proof (induction sep xs rule: join.induct)
  case (1 sep)
  then show ?case by simp
next
  case (2 sep y)
  then show ?case by simp
next
  case (3 sep y z zs)
  show ?case
  proof (cases "x = y")
    case True
    then show ?thesis
      using sublist_appendI [of y "[]" "sep @ join sep (z # zs)"] by simp
  next
    case False
    then have "sublist x (join sep (z # zs))"
      using 3 by simp
    then obtain ps ss where "join sep (z # zs) = ps @ x @ ss"
      by (auto simp: sublist_def)
    then have "join sep (y # z # zs) = (y @ sep @ ps) @ x @ ss"
      by simp
    then show ?thesis
      unfolding sublist_def by blast
  qed
qed

lemma article_block_eq:
  "article_block a =
     ''**'' @ title a @ ''** ('' @ category a @ ''): '' @ take 200 (content a) @ ''...''"
  by (simp add: article_block_def substring_def)

lemma article_block_fun:
  "article_block =
     (\<lambda>a. ''**'' @ title a @ ''** ('' @ category a @ ''): '' @ take 200 (content a) @ ''...'')"
  by (rule ext) (simp add: article_block_eq)

lemma toString_1: "toString 1 = ''1''"
  by code_simp

lemma toString_2: "toString 2 = ''2''"
  by code_simp

lemma generateSummary_nonempty:
  "arts \<noteq> [] \<Longrightarrow>
   generateSummary arts q =
     ''Based on your query about '' @ [CHR 0x22] @ q @ [CHR 0x22] @ '', I found '' @
     toString (length arts) @ '' relevant article'' @
     (if length arts > 1 then ''s'' else []) @ '':'' @ blank_line @
     join blank_line (map article_block (take 3 arts)) @ blank_line @ ''**Summary**: '' @
     generateContextualSummary arts q"
  by (simp add: generateSummary_def)

lemma of_char_digit_char: "d < 10 \<Longrightarrow> (of_char (digit_char d) :: nat) = 48 + d"
  by (simp add: digit_char_def)

lemma toString_not_Nil: "toString n \<noteq> []"
  by (subst toString.simps) simp

lemma digits_value_snoc: "digits_value (n @ [c]) = 10 * digits_value n + (of_char c - 48)"
  by (simp add: digits_value_def)

lemma digits_value_toString: "digits_value (toString n) = n"
proof (induction n rule: toString.induct)
  case (1 n)
  show ?case
  proof (cases "n < 10")
    case True
    then show ?thesis
      by (subst toString.simps) (simp add: digits_value_def of_char_digit_char)
  next
    case False
    then have "digits_value (toString (n div 10)) = n div 10"
      using 1 by simp
    then show ?thesis
      using False
      by (subst toString.simps) (simp add: digits_value_snoc of_char_digit_char)
  qed
qed

lemma digits_toString: "list_all is_digit (toString n)"
proof (induction n rule: toString.induct)
  case (1 n)
  show ?case
  proof (cases "n < 10")
    case True
    then show ?thesis
      by (subst toString.simps) (simp add: is_digit_def of_char_digit_char)
  next
    case False
    then have "list_all is_digit (toString (n div 10))"
      using 1 by simp
    then show ?thesis
      using False
      by (subst toString.simps) (simp add: is_digit_def of_char_digit_char)
  qed
qed

lemma toString_leading: "0 < n \<Longrightarrow> 49 \<le> (of_char (hd (toString n)) :: nat)"
proof (induction n rule: toString.induct)
  case (1 n)
  show ?case
  proof (cases "n < 10")
    case True
    then show ?thesis
      using "1.prems" by (subst toString.simps) (simp add: of_char_digit_char)
  next
    case False
    then have "49 \<le> (of_char (hd (toString (n div 10))) :: nat)"
      using 1 by simp
    then show ?thesis
      using False toString_not_Nil [of "n div 10"]
      by (subst toString.simps) simp
  qed
qed

lemma toString_0: "toString 0 = ''0''"
  by code_simp

lemma decimal_of_toString: "decimal_of (toString k) k"
proof (cases "k = 0")
  case True
  then show ?thesis
    using digits_value_toString [of 0] digits_toString [of 0]
    by (simp add: decimal_of_def toString_0)
next
  case False
  then show ?thesis
    using toString_leading [of k]
    by (simp add: decimal_of_def toString_not_Nil digits_toString digits_value_toString)
qed

lemma digits_value_positive:
  "n \<noteq> [] \<Longrightarrow> 49 \<le> (of_char (hd n) :: nat) \<Longrightarrow> 0 < digits_value n"
proof (induction n rule: rev_induct)
  case Nil
  then show ?case by simp
next
  case (snoc c xs)
  show ?case
  proof (cases "xs = []")
    case True
    then show ?thesis
      using snoc.prems by (simp add: digits_value_def)
  next
    case False
    then have "0 < digits_value xs"
      using snoc by simp
    then show ?thesis
      by (simp add: digits_value_snoc)
  qed
qed

lemma decimal_of_butlast:
  assumes "decimal_of (xs @ [c]) k" and "xs \<noteq> []"
  shows "decimal_of xs (digits_value xs)"
proof -
  have "49 \<le> (of_char (hd (xs @ [c])) :: nat)"
    using assms by (cases xs) (auto simp: decimal_of_def)
  then have "49 \<le> (of_char (hd xs) :: nat)"
    using assms(2) by simp
  then show ?thesis
    using assms by (simp add: decimal_of_def)
qed

text \<open>A number has one decimal numeral only.\<close>

lemma decimal_of_unique: "decimal_of n k \<Longrightarrow> decimal_of m k \<Longrightarrow> n = m"
proof (induction n arbitrary: m k rule: rev_induct)
  case Nil
  then show ?case by (simp add: decimal_of_def)
next
  case (snoc c xs)
  from snoc.prems(2) have "m \<noteq> []"
    by (simp add: decimal_of_def)
  then obtain ys d where m: "m = ys @ [d]"
    by (cases m rule: rev_cases) auto
  have dc: "is_digit c" and dd: "is_digit d"
    using snoc.prems m by (simp_all add: decimal_of_def)
  have val: "10 * digits_value xs + (of_char c - 48) = 10 * digits_value ys + (of_char d - 48)"
    using snoc.prems m by (simp add: decimal_of_def digits_value_snoc)
  define a b :: nat where "a = of_char c - 48" and "b = of_char d - 48"
  have ab: "a \<le> 9" "b \<le> 9"
    using dc dd unfolding a_def b_def is_digit_def by linarith+
  have "10 * digits_value xs + a = 10 * digits_value ys + b"
    using val by (simp add: a_def b_def)
  then have cd: "a = b" and v: "digits_value xs = digits_value ys"
    using ab by arith+
  have "(of_char c :: nat) = 48 + a" "(of_char d :: nat) = 48 + b"
    using dc dd unfolding a_def b_def is_digit_def by linarith+
  then have "(of_char c :: nat) = of_char d"
    using cd by simp
  then have c: "c = d"
    by simp
  have "xs = ys"
  proof (cases "xs = []")
    case True
    show ?thesis
    proof (rule ccontr)
      assume "xs \<noteq> ys"
      then have ne: "ys \<noteq> []"
        using True by simp
      have "decimal_of ys (digits_value ys)"
        using snoc.prems(2) ne unfolding m by (rule decimal_of_butlast)
      moreover have "ys \<noteq> ''0'' \<or> digits_value ys = 0"
        by (auto simp: digits_value_def)
      ultimately show False
        using v True ne snoc.prems(2) m digits_value_positive [of ys]
        by (cases ys) (auto simp: decimal_of_def digits_value_def)
    qed
  next
    case False
    note xs = this
    show ?thesis
    proof (cases "ys = []")
      case True
      have "49 \<le> (of_char (hd xs) :: nat)"
        using snoc.prems(1) xs by (cases xs) (auto simp: decimal_of_def)
      then have "0 < digits_value xs"
        using xs by (rule digits_value_positive [rotated])
      then show ?thesis
        using v True by (simp add: digits_value_def)
    next
      case False
      have "decimal_of xs (digits_value xs)"
        using snoc.prems(1) xs by (rule decimal_of_butlast)
      moreover have "decimal_of ys (digits_value xs)"
        using decimal_of_butlast [OF snoc.prems(2) [unfolded m] False] v by simp
      ultimately show ?thesis
        by (rule snoc.IH)
    qed
  qed
  then show ?case
    using c m by simp
qed

text \<open>
  C5. For a non-empty list of articles the summary is: a header with the query between
  double quotes and the decimal numeral of the number of articles found ("1 relevant
  article", "N relevant articles" for more than one); then one block for each of the
  first three articles, with its title, its category and the first 200 characters of
  its content followed by "...", consecutive blocks separated by one blank line; then
  the closing sentence.
\<close>

theorem generateSummary_layout:
  assumes "arts \<noteq> []"
  shows "(\<exists>n. decimal_of n (length arts) \<and>
     generateSummary arts q =
       ''Based on your query about '' @ [CHR 0x22] @ q @ [CHR 0x22] @ '', I found '' @ n @
       (if length arts = 1 then '' relevant article'' else '' relevant articles'') @ '':'' @
       [CHR 0x0A, CHR 0x0A] @
       (let block = (\<lambda>a. ''**'' @ title a @ ''** ('' @ category a @ ''): '' @
                         take 200 (content a) @ ''...'')
        in case arts of
             [a] \<Rightarrow> block a
           | [a, b] \<Rightarrow> block a @ [CHR 0x0A, CHR 0x0A] @ block b
           | a # b # c # rest \<Rightarrow>
               block a @ [CHR 0x0A, CHR 0x0A] @ block b @ [CHR 0x0A, CHR 0x0A] @ block c) @
       [CHR 0x0A, CHR 0x0A] @ ''**Summary**: '' @ generateContextualSummary arts q)
   \<and> (length arts = 1 \<longrightarrow> sublist ''found 1 relevant article:'' (generateSummary arts q))
   \<and> (length arts = 2 \<longrightarrow> sublist ''found 2 relevant articles:'' (generateSummary arts q))"
proof -
  have blocks: "join blank_line (map article_block (take 3 arts)) =
        (let block = (\<lambda>a. ''**'' @ title a @ ''** ('' @ category a @ ''): '' @
                         take 200 (content a) @ ''...'')
        in case arts of
             [a] \<Rightarrow> block a
           | [a, b] \<Rightarrow> block a @ [CHR 0x0A, CHR 0x0A] @ block b
           | a # b # c # rest \<Rightarrow>
               block a @ [CHR 0x0A, CHR 0x0A] @ block b @ [CHR 0x0A, CHR 0x0A] @ block c)"
    using assms
    by (auto simp: blank_line_def article_block_eq Let_def split: list.splits)
  have count: "'' relevant article'' @ (if length arts > 1 then ''s'' else []) =
      (if length arts = 1 then '' relevant article'' else '' relevant articles'')"
    using assms by (cases arts) auto
  have layout: "generateSummary arts q =
       ''Based on your query about '' @ [CHR 0x22] @ q @ [CHR 0x22] @ '', I found '' @
       toString (length arts) @
       (if length arts = 1 then '' relevant article'' else '' relevant articles'') @ '':'' @
       [CHR 0x0A, CHR 0x0A] @
       (let block = (\<lambda>a. ''**'' @ title a @ ''** ('' @ category a @ ''): '' @
                         take 200 (content a) @ ''...'')
        in case arts of
             [a] \<Rightarrow> block a
           | [a, b] \<Rightarrow> block a @ [CHR 0x0A, CHR 0x0A] @ block b
           | a # b # c # rest \<Rightarrow>
               block a @ [CHR 0x0A, CHR 0x0A] @ block b @ [CHR 0x0A, CHR 0x0A] @ block c) @
       [CHR 0x0A, CHR 0x0A] @ ''**Summary**: '' @ generateContextualSummary arts q"
    unfolding generateSummary_nonempty [OF assms] blocks [symmetric] count [symmetric]
    by (simp add: blank_line_def)
  have one: "sublist ''found 1 relevant article:'' (generateSummary arts q)" if "length arts = 1"
  proof -
    have "generateSummary arts q =
        (''Based on your query about '' @ [CHR 0x22] @ q @ [CHR 0x22] @ '', I '') @
        ''found 1 relevant article:'' @
        (blank_line @ join blank_line (map article_block (take 3 arts)) @ blank_line @
         ''**Summary**: '' @ generateContextualSummary arts q)"
      using that toString_1 by (simp add: generateSummary_nonempty [OF assms])
    then show ?thesis
      using sublist_appendI by metis
  qed
  have two: "sublist ''found 2 relevant articles:'' (generateSummary arts q)" if "length arts = 2"
  proof -
    have "generateSummary arts q =
        (''Based on your query about '' @ [CHR 0x22] @ q @ [CHR 0x22] @ '', I '') @
        ''found 2 relevant articles:'' @
        (blank_line @ join blank_line (map article_block (take 3 arts)) @ blank_line @
         ''**Summary**: '' @ generateContextualSummary arts q)"
      using that toString_2 by (simp add: generateSummary_nonempty [OF assms])
    then show ?thesis
      using sublist_appendI by metis
  qed
  show ?thesis
    using layout decimal_of_toString [of "length arts"] one two by blast
qed

lemma closing_docker:
  "generateContextualSummary [docker_guide, api_errors] ''docker'' =
     ''The documentation covers various aspects of DevOps. These articles should provide the information you're looking for.''"
  by code_simp

lemma decimal_of_2: "decimal_of ''2'' 2"
  by (simp add: decimal_of_def is_digit_def digits_value_def)

theorem generateSummary_layout_witness:
  "[docker_guide, api_errors] \<noteq> []
   \<and> decimal_of ''2'' 2
   \<and> (\<exists>n. decimal_of n 2 \<and>
        generateSummary [docker_guide, api_errors] ''docker'' =
          ''Based on your query about '' @ [CHR 0x22] @ ''docker'' @ [CHR 0x22] @ '', I found '' @ n @
          '' relevant articles:'' @ [CHR 0x0A, CHR 0x0A] @
          ''**Docker Deployment Guide** (DevOps): Use docker compose....'' @ [CHR 0x0A, CHR 0x0A] @
          ''**API Errors** (Backend): Check the status code....'' @ [CHR 0x0A, CHR 0x0A] @
          ''**Summary**: The documentation covers various aspects of DevOps. These articles should provide the information you're looking for.'')
   \<and> sublist ''found 2 relevant articles:'' (generateSummary [docker_guide, api_errors] ''docker'')"
proof -
  have two: "[docker_guide, api_errors] \<noteq> []"
    by simp
  have "\<exists>n. decimal_of n 2 \<and>
        generateSummary [docker_guide, api_errors] ''docker'' =
          ''Based on your query about '' @ [CHR 0x22] @ ''docker'' @ [CHR 0x22] @ '', I found '' @ n @
          '' relevant articles:'' @ [CHR 0x0A, CHR 0x0A] @
          ''**Docker Deployment Guide** (DevOps): Use docker compose....'' @ [CHR 0x0A, CHR 0x0A] @
          ''**API Errors** (Backend): Check the status code....'' @ [CHR 0x0A, CHR 0x0A] @
          ''**Summary**: The documentation covers various aspects of DevOps. These articles should provide the information you're looking for.''"
    using generateSummary_layout [OF two, of "''docker''", THEN conjunct1]
    by (auto simp: closing_docker [unfolded docker_guide_def api_errors_def]
        docker_guide_def api_errors_def numeral_2_eq_2)
  moreover have "sublist ''found 2 relevant articles:''
      (generateSummary [docker_guide, api_errors] ''docker'')"
    using generateSummary_layout [OF two, of "''docker''", THEN conjunct2] by simp
  ultimately show ?thesis
    using decimal_of_2 by simp
qed

text \<open>
  C10. For a non-empty list of articles, the block of each of the first three articles
  occurs in the summary and ends with the first 200 characters of the content followed
  by "...": the marker is there for every article, and when the content is shorter than
  200 characters the whole content is followed by it.
\<close>

theorem excerpt_always_marked:
  assumes "arts \<noteq> []" and "a \<in> set (take 3 arts)"
  shows "sublist (''**'' @ title a @ ''** ('' @ category a @ ''): '' @ take 200 (content a) @ ''...'')
           (generateSummary arts q)
   \<and> (length (content a) < 200 \<longrightarrow>
        sublist (''**'' @ title a @ ''** ('' @ category a @ ''): '' @ content a @ ''...'')
          (generateSummary arts q))"
proof -
  let ?pre = "''Based on your query about '' @ [CHR 0x22] @ q @ [CHR 0x22] @ '', I found '' @
     toString (length arts) @ '' relevant article'' @
     (if length arts > 1 then ''s'' else []) @ '':'' @ blank_line"
  let ?post = "blank_line @ ''**Summary**: '' @ generateContextualSummary arts q"
  have "article_block a \<in> set (map article_block (take 3 arts))"
    using assms(2) by simp
  then have "sublist (article_block a) (join blank_line (map article_block (take 3 arts)))"
    by (rule sublist_join)
  moreover have "sublist (join blank_line (map article_block (take 3 arts)))
      (?pre @ join blank_line (map article_block (take 3 arts)) @ ?post)"
    by (rule sublist_appendI)
  moreover have "generateSummary arts q =
      ?pre @ join blank_line (map article_block (take 3 arts)) @ ?post"
    by (simp add: generateSummary_nonempty [OF assms(1)])
  ultimately have main: "sublist (article_block a) (generateSummary arts q)"
    using sublist_order.order.trans by metis
  show ?thesis
  proof (intro conjI impI)
    show "sublist (''**'' @ title a @ ''** ('' @ category a @ ''): '' @ take 200 (content a) @ ''...'')
           (generateSummary arts q)"
      using main by (simp add: article_block_eq)
  next
    assume "length (content a) < 200"
    then have "take 200 (content a) = content a"
      by simp
    then show "sublist (''**'' @ title a @ ''** ('' @ category a @ ''): '' @ content a @ ''...'')
           (generateSummary arts q)"
      using main by (simp add: article_block_eq)
  qed
qed

theorem excerpt_always_marked_witness:
  "[docker_guide, api_errors] \<noteq> []
   \<and> api_errors \<in> set (take 3 [docker_guide, api_errors])
   \<and> length (content api_errors) < 200
   \<and> sublist ''**API Errors** (Backend): Check the status code....''
       (generateSummary [docker_guide, api_errors] ''status'')"
proof -
  have ne: "[docker_guide, api_errors] \<noteq> []"
    by simp
  have mem: "api_errors \<in> set (take 3 [docker_guide, api_errors])"
    by simp
  have short: "length (content api_errors) < 200"
    by (simp add: api_errors_def)
  show ?thesis
    using excerpt_always_marked [OF ne mem, of "''status''", THEN conjunct2] ne mem short
    by (simp add: api_errors_def)
qed

section \<open>Retrieval: properties\<close>

lemma keywordQuery_neq_textQuery: "keywordQuery kws \<noteq> textQuery q"
proof
  assume "keywordQuery kws = textQuery q"
  then have "filter_by (keywordQuery kws) = filter_by (textQuery q)"
    by simp
  then show False
    by (simp add: keywordQuery_def textQuery_def)
qed

lemma no_rows_or_empty: "no_rows d = (or_empty d = [])"
  by (cases d) (simp_all add: no_rows_def or_empty_def)

lemma searchArticles_throw1:
  "st (keywordQuery (extractKeywords q)) = Inl e \<Longrightarrow>
   searchArticles st q = ([keywordQuery (extractKeywords q)], Inl e)"
  by (simp add: searchArticles_def)

lemma searchArticles_stage1:
  "st (keywordQuery (extractKeywords q)) = Inr r1 \<Longrightarrow> or_empty (data r1) \<noteq> [] \<Longrightarrow>
   searchArticles st q = ([keywordQuery (extractKeywords q)], Inr (or_empty (data r1)))"
  by (simp add: searchArticles_def no_rows_or_empty)

lemma searchArticles_stage2:
  "st (keywordQuery (extractKeywords q)) = Inr r1 \<Longrightarrow> or_empty (data r1) = [] \<Longrightarrow>
   searchArticles st q =
     ([keywordQuery (extractKeywords q), textQuery q],
      case st (textQuery q) of Inl e \<Rightarrow> Inl e | Inr r2 \<Rightarrow> Inr (or_empty (data r2)))"
  by (simp add: searchArticles_def no_rows_or_empty or_empty_def split: sum.splits)

text \<open>
  C1, as the code has it. The keyword-overlap query is always the first query issued,
  with the extracted keywords, also when there are none. The full-text query over the
  title with the raw query text is issued if and only if the first query answers and
  yields no rows. The result is the rows of the first query when there are some, and
  otherwise the rows of the second, which may be none.
\<close>

theorem searchArticles_two_stage:
  "fst (searchArticles st q) \<noteq> []
   \<and> hd (fst (searchArticles st q)) = keywordQuery (extractKeywords q)
   \<and> (textQuery q \<in> set (fst (searchArticles st q))) =
       (\<exists>r1. st (keywordQuery (extractKeywords q)) = Inr r1 \<and> or_empty (data r1) = [])
   \<and> (\<forall>r1. st (keywordQuery (extractKeywords q)) = Inr r1 \<and> or_empty (data r1) \<noteq> [] \<longrightarrow>
         searchArticles st q = ([keywordQuery (extractKeywords q)], Inr (or_empty (data r1))))
   \<and> (\<forall>r1 r2. st (keywordQuery (extractKeywords q)) = Inr r1 \<and> or_empty (data r1) = [] \<and>
         st (textQuery q) = Inr r2 \<longrightarrow>
         searchArticles st q =
           ([keywordQuery (extractKeywords q), textQuery q], Inr (or_empty (data r2))))"
proof (cases "st (keywordQuery (extractKeywords q))")
  case (Inl e)
  then show ?thesis
    using keywordQuery_neq_textQuery [of "extractKeywords q" q]
    by (auto simp: searchArticles_throw1)
next
  case (Inr r1)
  show ?thesis
  proof (cases "or_empty (data r1) = []")
    case True
    then show ?thesis
      using Inr by (auto simp: searchArticles_stage2)
  next
    case False
    then show ?thesis
      using Inr keywordQuery_neq_textQuery [of "extractKeywords q" q]
      by (auto simp: searchArticles_stage1)
  qed
qed

lemma kw_docker_tips: "extractKeywords ''Docker tips'' = [''docker'', ''tips'']"
  by code_simp

lemma kw_guide: "extractKeywords ''Guide'' = [''guide'']"
  by code_simp

lemma kw_how_to: "extractKeywords ''how to'' = []"
  by code_simp

lemma two_articles_stage1:
  "table_store [api_errors, docker_guide] title_contains (keywordQuery [''docker'', ''tips'']) =
     Inr \<lparr>data = Some [docker_guide], error = None\<rparr>"
  by code_simp

lemma two_articles_stage1_none:
  "table_store [api_errors, docker_guide] title_contains (keywordQuery [''guide'']) =
     Inr \<lparr>data = Some [], error = None\<rparr>"
  by code_simp

lemma two_articles_stage2:
  "table_store [api_errors, docker_guide] title_contains (textQuery ''Guide'') =
     Inr \<lparr>data = Some [docker_guide], error = None\<rparr>"
  by code_simp

theorem searchArticles_two_stage_witness:
  "searchArticles (table_store [api_errors, docker_guide] title_contains) ''Docker tips'' =
     ([keywordQuery [''docker'', ''tips'']], Inr [docker_guide])
   \<and> searchArticles (table_store [api_errors, docker_guide] title_contains) ''Guide'' =
     ([keywordQuery [''guide''], textQuery ''Guide''], Inr [docker_guide])"
proof -
  let ?st = "table_store [api_errors, docker_guide] title_contains"
  have "searchArticles ?st ''Docker tips'' = ([keywordQuery [''docker'', ''tips'']], Inr [docker_guide])"
    using searchArticles_two_stage [of ?st "''Docker tips''"] two_articles_stage1
    by (simp add: kw_docker_tips or_empty_def)
  moreover have "searchArticles ?st ''Guide'' =
      ([keywordQuery [''guide''], textQuery ''Guide''], Inr [docker_guide])"
    using searchArticles_two_stage [of ?st "''Guide''"] two_articles_stage1_none two_articles_stage2
    by (simp add: kw_guide or_empty_def)
  ultimately show ?thesis by simp
qed

text \<open>
  C1 as the specification states it fails where no keyword is extracted: stage 1 is not
  skipped. The query "how to" has no keyword, and the keyword-overlap query, with the
  empty list, is still issued before the full-text query.
\<close>

theorem stage1_not_skipped_counterexample:
  "extractKeywords ''how to'' = []
   \<and> fst (searchArticles (table_store [api_errors, docker_guide] title_contains) ''how to'') =
       [keywordQuery [], textQuery ''how to'']"
proof -
  have "table_store [api_errors, docker_guide] title_contains (keywordQuery []) =
      Inr \<lparr>data = Some [], error = None\<rparr>"
    by code_simp
  then show ?thesis
    by (simp add: kw_how_to searchArticles_stage2 or_empty_def)
qed

text \<open>
  C2. An error response of the store is not thrown by \<open>searchArticles\<close>. With a store
  that answers every query with an error, stage 1 is followed by stage 2 and the result
  is the empty list; the session then shows the message for no results, not its apology.
\<close>

theorem store_error_swallowed:
  "searchArticles erroring_store ''docker'' =
     ([keywordQuery [''docker''], textQuery ''docker''], Inr [])
   \<and> map message_content
        (messages (handleSendMessage erroring_store 1000 1001 2000 2001 (typed ''docker'') (typed ''docker''))) =
       [''Hello!'', ''docker'', no_results_message]"
proof -
  have kw: "extractKeywords ''docker'' = [''docker'']"
    by code_simp
  have search: "searchArticles erroring_store ''docker'' =
     ([keywordQuery [''docker''], textQuery ''docker''], Inr [])"
    by (simp add: searchArticles_def kw erroring_store_def no_rows_def or_empty_def)
  have "trim ''docker'' = ''docker''"
    by code_simp
  then have "handleSendMessage_submit 1000 1001 (typed ''docker'') (typed ''docker'') =
      ((typed ''docker'')\<lparr>messages := messages (typed ''docker'') @
          [\<lparr>message_id = toString 1000, message_content = ''docker'', isBot = False,
            timestamp = 1001, articles = None\<rparr>], inputValue := [], isLoading := True\<rparr>,
       Some ''docker'')"
    by (simp add: handleSendMessage_submit_def typed_def initialState_def)
  then show ?thesis
    using search
    by (simp add: handleSendMessage_def handleSendMessage_settle_def typed_def
        initialState_def generateSummary_def)
qed

lemma created_desc_sort_key:
  "created_desc (take n (sort_key (\<lambda>a. - created_at a) xs))"
proof -
  have "sorted (map (\<lambda>a. - created_at a) (sort_key (\<lambda>a. - created_at a) xs))"
    by (rule sorted_sort_key)
  then have "sorted_wrt (\<lambda>a b. created_at b \<le> created_at a) (sort_key (\<lambda>a. - created_at a) xs)"
    by (simp add: sorted_map)
  then show ?thesis
    unfolding created_desc_def by (rule sorted_wrt_take)
qed

lemma table_store_honours: "honours_order_and_limit (table_store tbl fts)"
  unfolding honours_order_and_limit_def
proof (intro allI impI)
  fix q r rows
  assume a: "table_store tbl fts q = Inr r \<and> data r = Some rows"
  show "length rows \<le> limit_to q \<and>
        (order_by q = ''created_at'' \<and> \<not> ascending q \<longrightarrow> created_desc rows)"
    using a created_desc_sort_key [of "limit_to q" "filter (satisfies fts (filter_by q)) tbl"]
    by (auto simp: table_store_def Let_def)
qed

text \<open>
  C6. With a store that honours the order and the limit of a query, retrieval returns at
  most 5 articles, most recently created first, whichever stage they come from.
\<close>

theorem retrieval_bounded_and_ordered:
  assumes "honours_order_and_limit st" and "snd (searchArticles st q) = Inr rows"
  shows "length rows \<le> 5 \<and> created_desc rows"
proof -
  have use: "length xs \<le> 5 \<and> created_desc xs"
    if "st qq = Inr r" "data r = Some xs" "qq = keywordQuery kws \<or> qq = textQuery q" for qq r xs kws
    using assms(1) that unfolding honours_order_and_limit_def
    by (fastforce simp: keywordQuery_def textQuery_def)
  have empty: "length ([] :: Article list) \<le> 5 \<and> created_desc []"
    by (simp add: created_desc_def)
  show ?thesis
  proof (cases "st (keywordQuery (extractKeywords q))")
    case (Inl e)
    then show ?thesis
      using assms(2) by (simp add: searchArticles_throw1)
  next
    case (Inr r1)
    show ?thesis
    proof (cases "or_empty (data r1) = []")
      case False
      then have rows: "rows = or_empty (data r1)"
        using Inr assms(2) by (simp add: searchArticles_stage1)
      then obtain xs where "data r1 = Some xs" "rows = xs"
        using False by (cases "data r1") (simp_all add: or_empty_def)
      then show ?thesis
        using use [OF Inr, of xs "extractKeywords q"] by simp
    next
      case True
      then have res: "(case st (textQuery q) of Inl e \<Rightarrow> Inl e | Inr r2 \<Rightarrow> Inr (or_empty (data r2))) = Inr rows"
        using Inr assms(2) by (simp add: searchArticles_stage2)
      then obtain r2 where r2: "st (textQuery q) = Inr r2" "rows = or_empty (data r2)"
        by (cases "st (textQuery q)") auto
      show ?thesis
      proof (cases "data r2")
        case None
        then show ?thesis
          using r2 empty by (simp add: or_empty_def)
      next
        case (Some xs)
        then show ?thesis
          using use [OF r2(1), of xs] r2(2) by (simp add: or_empty_def)
      qed
    qed
  qed
qed

lemma six_guides_search:
  "snd (searchArticles (table_store six_guides title_contains) ''docker'') =
     Inr (map (\<lambda>n. docker_guide\<lparr>created_at := n\<rparr>) [6, 5, 4, 3, 2])"
  by code_simp

theorem retrieval_bounded_and_ordered_witness:
  "honours_order_and_limit (table_store six_guides title_contains)
   \<and> snd (searchArticles (table_store six_guides title_contains) ''docker'') =
       Inr (map (\<lambda>n. docker_guide\<lparr>created_at := n\<rparr>) [6, 5, 4, 3, 2])
   \<and> length (map (\<lambda>n. docker_guide\<lparr>created_at := n\<rparr>) [6, 5, 4, 3, 2 :: int]) \<le> 5
   \<and> created_desc (map (\<lambda>n. docker_guide\<lparr>created_at := n\<rparr>) [6, 5, 4, 3, 2])"
  using retrieval_bounded_and_ordered [OF table_store_honours six_guides_search]
    table_store_honours [of six_guides title_contains] six_guides_search
  by blast

section \<open>The chat session: properties\<close>




lemma trim_docker: "trim ''docker'' = ''docker''"
  by code_simp

lemma kw_docker: "extractKeywords ''docker'' = [''docker'']"
  by code_simp

lemma toString_1000: "toString 1000 = ''1000''"
  by code_simp

lemma toString_2001: "toString 2001 = ''2001''"
  by code_simp

text \<open>
  C8. When the store fails, that is when it answers both queries with an error response,
  the accepted submission of "docker" does not end with the fixed error turn: the turn
  appended after the user turn is an assistant summary turn, with the message for no
  results and an empty list of articles. The in-flight flag is cleared all the same.
\<close>

theorem store_failure_gets_summary_turn:
  "messages (handleSendMessage erroring_store 1000 1001 2000 2002 (typed ''docker'') (typed ''docker'')) =
     [\<lparr>message_id = ''1'', message_content = ''Hello!'', isBot = True, timestamp = 0,
       articles = None\<rparr>,
      \<lparr>message_id = ''1000'', message_content = ''docker'', isBot = False, timestamp = 1001,
       articles = None\<rparr>,
      \<lparr>message_id = ''2001'', message_content = no_results_message, isBot = True,
       timestamp = 2002, articles = Some []\<rparr>]
   \<and> no_results_message \<noteq> error_message
   \<and> isLoading (fst (handleSendMessage_submit 1000 1001 (typed ''docker'') (typed ''docker'')))
   \<and> \<not> isLoading
        (handleSendMessage erroring_store 1000 1001 2000 2002 (typed ''docker'') (typed ''docker''))"
proof -
  have search: "snd (searchArticles erroring_store ''docker'') = Inr []"
    by (simp add: searchArticles_def kw_docker erroring_store_def no_rows_def or_empty_def)
  have submit: "handleSendMessage_submit 1000 1001 (typed ''docker'') (typed ''docker'') =
      ((typed ''docker'')\<lparr>messages := messages (typed ''docker'') @
          [\<lparr>message_id = ''1000'', message_content = ''docker'', isBot = False,
            timestamp = 1001, articles = None\<rparr>], inputValue := [], isLoading := True\<rparr>,
       Some ''docker'')"
    by (simp add: handleSendMessage_submit_def typed_def initialState_def trim_docker toString_1000)
  have differ: "no_results_message \<noteq> error_message"
    by (simp add: no_results_message_def error_message_def)
  have "toString (Suc 2000) = ''2001''"
    using toString_2001 by simp
  then show ?thesis
    using search submit differ
    by (simp add: handleSendMessage_def handleSendMessage_settle_def typed_def
        initialState_def generateSummary_def)
qed









end
